theory Spec2Isabelle
  imports Main "HOL-Library.Finite_Map" "HOL-Library.Sublist"
    "HOL-Library.Char_ord" "HOL-Library.List_Lexorder"
begin

section \<open>Python values\<close>

text \<open>
  The values that travel through the protocol layer: \<open>None\<close>, booleans, integers,
  strings, tuples, lists and dictionaries with string keys. A tuple and a list are kept
  apart, since \<open>*args\<close> is a tuple, the JSON codec returns lists, and the two are
  printed differently. Python 2's \<open>str\<close> and \<open>unicode\<close> are both \<open>string\<close>
  here, and floats are left out.
\<close>

datatype pyval =
    PyNone
  | PyBool bool
  | PyInt int
  | PyStr string
  | PyTuple "pyval list"
  | PyList "pyval list"
  | PyDict "(string, pyval) fmap"

type_synonym pydict = "(string, pyval) fmap"

subsection \<open>\<open>repr\<close> and \<open>str\<close>\<close>

text \<open>
  \<open>'%s' % v\<close> and \<open>str(v)\<close> print a string as it is and everything else by
  \<open>repr\<close>; a container prints its items by \<open>repr\<close>. \<open>py_repr_str\<close> is
  CPython 2's \<open>repr\<close> of a byte string: the quote is \<open>'\<close> unless the string holds a
  \<open>'\<close> and no \<open>"\<close>; the quote and the backslash are escaped by a backslash, tab,
  newline and carriage return are written \<open>\t\<close>, \<open>\n\<close>, \<open>\r\<close>, any other byte below
  0x20 or from 0x7f on is written \<open>\xNN\<close>. Integers are printed in decimal (without
  the \<open>L\<close> that \<open>repr\<close> gives a long) and the items of a dictionary in the order of
  their keys (CPython's order is that of its hash table).
\<close>

fun dec_nat :: "nat \<Rightarrow> string" where
  "dec_nat n = (if n < 10 then [char_of (48 + n)]
     else dec_nat (n div 10) @ [char_of (48 + n mod 10)])"

declare dec_nat.simps [simp del]

definition dec_int :: "int \<Rightarrow> string" where
  "dec_int i = (if i < 0 then CHR 0x2D # dec_nat (nat (- i)) else dec_nat (nat i))"

definition hex_digit :: "nat \<Rightarrow> char" where
  "hex_digit n = (if n < 10 then char_of (48 + n) else char_of (87 + n))"

definition repr_quote :: "string \<Rightarrow> char" where
  "repr_quote s = (if CHR 0x27 \<in> set s \<and> CHR 0x22 \<notin> set s then CHR 0x22 else CHR 0x27)"

definition repr_char :: "char \<Rightarrow> char \<Rightarrow> string" where
  "repr_char q c =
     (if c = q \<or> c = CHR 0x5C then [CHR 0x5C, c]
      else if c = CHR 0x09 then [CHR 0x5C, CHR ''t'']
      else if c = CHR 0x0A then [CHR 0x5C, CHR ''n'']
      else if c = CHR 0x0D then [CHR 0x5C, CHR ''r'']
      else if (of_char c :: nat) < 32 \<or> 127 \<le> (of_char c :: nat)
        then [CHR 0x5C, CHR ''x'', hex_digit (of_char c div 16), hex_digit (of_char c mod 16)]
      else [c])"

definition py_repr_str :: "string \<Rightarrow> string" where
  "py_repr_str s = (let q = repr_quote s in [q] @ concat (map (repr_char q) s) @ [q])"

fun join :: "string \<Rightarrow> string list \<Rightarrow> string" where
  "join sep [] = []"
| "join sep [x] = x"
| "join sep (x # y # ys) = x @ sep @ join sep (y # ys)"

definition repr_dict :: "(string, string) fmap \<Rightarrow> string" where
  "repr_dict m = ''{'' @ join '', ''
     (map (\<lambda>k. py_repr_str k @ '': '' @ (case fmlookup m k of Some r \<Rightarrow> r | None \<Rightarrow> []))
        (sorted_list_of_fset (fmdom m))) @ ''}''"

primrec py_repr :: "pyval \<Rightarrow> string" where
  "py_repr PyNone = ''None''"
| "py_repr (PyBool b) = (if b then ''True'' else ''False'')"
| "py_repr (PyInt i) = dec_int i"
| "py_repr (PyStr s) = py_repr_str s"
| "py_repr (PyTuple xs) =
     ''('' @ join '', '' (map py_repr xs) @ (if length xs = 1 then '','' else []) @ '')''"
| "py_repr (PyList xs) = ''['' @ join '', '' (map py_repr xs) @ '']''"
| "py_repr (PyDict m) = repr_dict (fmmap py_repr m)"

definition py_str :: "pyval \<Rightarrow> string" where
  "py_str v = (case v of PyStr s \<Rightarrow> s | _ \<Rightarrow> py_repr v)"

section \<open>Exceptions (rpc.py, lines 6 to 36)\<close>

text \<open>
  The seven classes of rpc.py and their base \<open>Error\<close>, and of Python's own classes
  the ones the code can meet: \<open>TypeError\<close>, \<open>NameError\<close>, \<open>KeyError\<close>,
  \<open>UnicodeEncodeError\<close>, \<open>OtherException\<close> for any other class below \<open>Exception\<close>
  (with the \<open>__str__\<close> of \<open>BaseException\<close>), and \<open>SystemExit\<close> for a class below
  \<open>BaseException\<close> only. An exception value carries its class and its \<open>args\<close> tuple.
\<close>

datatype exc_class =
    Error
  | ParseError
  | InvalidRequestError
  | MethodNotFoundError
  | InvalidParamsError
  | InvalidResponseError
  | ProtocolError
  | InternalError
  | TypeError
  | NameError
  | KeyError
  | UnicodeEncodeError
  | OtherException
  | SystemExit

datatype exn = Exc (cls: exc_class) (args: "pyval list")

text \<open>What \<open>except Error\<close>, \<open>except TypeError\<close> and \<open>except Exception\<close> catch.\<close>

fun is_Error :: "exc_class \<Rightarrow> bool" where
  "is_Error TypeError = False"
| "is_Error NameError = False"
| "is_Error KeyError = False"
| "is_Error UnicodeEncodeError = False"
| "is_Error OtherException = False"
| "is_Error SystemExit = False"
| "is_Error c = True"

definition is_TypeError :: "exc_class \<Rightarrow> bool" where
  "is_TypeError c = (c = TypeError)"

definition is_Exception :: "exc_class \<Rightarrow> bool" where
  "is_Exception c = (c \<noteq> SystemExit)"

text \<open>
  \<open>str(e)\<close>. \<open>BaseException\<close> gives the empty string without arguments, the
  \<open>str\<close> of the argument with one, and the \<open>str\<close> of the tuple otherwise.
  \<open>KeyError\<close> with one argument gives the \<open>repr\<close> of it. \<open>UnicodeEncodeError\<close>
  (whose arguments are the encoding, the string, the start and the end of the
  characters that cannot be encoded, and the reason) names the character when there is
  one, and the positions otherwise.
\<close>

definition hex2 :: "nat \<Rightarrow> string" where
  "hex2 n = [hex_digit (n div 16), hex_digit (n mod 16)]"

definition unicode_error_str :: "string \<Rightarrow> string \<Rightarrow> nat \<Rightarrow> nat \<Rightarrow> string \<Rightarrow> string" where
  "unicode_error_str enc obj start end reason =
     (if end = start + 1 \<and> start < length obj
      then [CHR 0x27] @ enc @ [CHR 0x27] @ '' codec can't encode character u''
           @ [CHR 0x27, CHR 0x5C, CHR ''x''] @ hex2 (of_char (obj ! start)) @ [CHR 0x27]
           @ '' in position '' @ dec_nat start @ '': '' @ reason
      else [CHR 0x27] @ enc @ [CHR 0x27] @ '' codec can't encode characters in position ''
           @ dec_nat start @ ''-'' @ dec_int (int end - 1) @ '': '' @ reason)"

definition base_str :: "pyval list \<Rightarrow> string" where
  "base_str as = (case as of [] \<Rightarrow> [] | [a] \<Rightarrow> py_str a | _ \<Rightarrow> py_repr (PyTuple as))"

definition exc_str :: "exn \<Rightarrow> string" where
  "exc_str e =
     (case (cls e, args e) of
        (KeyError, [a]) \<Rightarrow> py_repr a
      | (UnicodeEncodeError, [PyStr enc, PyStr obj, PyInt start, PyInt end, PyStr reason]) \<Rightarrow>
          unicode_error_str enc obj (nat start) (nat end) reason
      | _ \<Rightarrow> base_str (args e))"

section \<open>Dispatcher (rpc.py, lines 81 to 103)\<close>

text \<open>
  A registered function takes the positional and the keyword arguments and returns a
  value or raises. The registry is the dictionary \<open>funcs\<close>.
\<close>

type_synonym handler = "pyval list \<Rightarrow> pydict \<Rightarrow> exn + pyval"

record py_function =
  fn_name :: string
  fn_call :: handler

type_synonym registry = "string \<rightharpoonup> py_function"

definition register_function :: "registry \<Rightarrow> py_function \<Rightarrow> string option \<Rightarrow> registry" where
  "register_function funcs function name =
     funcs((case name of None \<Rightarrow> fn_name function
            | Some n \<Rightarrow> if n = [] then fn_name function else n) \<mapsto> function)"

text \<open>
  The names bound at the top level of rpc.py, in the order of the file. A global name
  that is not among them (and is no builtin) raises \<open>NameError\<close> when it is read.
\<close>

definition rpc_globals :: "string list" where
  "rpc_globals = [''SocketServer'', ''open_socket'', ''socket_read'', ''Error'',
     ''ParseError'', ''InvalidRequestError'', ''MethodNotFoundError'', ''InvalidParamsError'',
     ''InvalidResponseError'', ''ProtocolError'', ''InternalError'', ''Serializer'',
     ''Protocol'', ''Dispatcher'', ''TCPRequestHandler'', ''TCPServer'', ''Transport'',
     ''TCPSocketTransport'', ''_FunctionProxy'', ''ServerProxy'', ''TCPServerProxy'']"

definition read_global :: "string \<Rightarrow> exn + unit" where
  "read_global name = (if name \<in> set rpc_globals then Inr ()
     else Inl (Exc NameError [PyStr (''global name '' @ py_repr_str name @ '' is not defined'')]))"

text \<open>
  \<open>dispatch\<close>: a missing key is caught, and line 96 then evaluates
  \<open>rpc.MethodNotFoundError(method)\<close>, which reads the global \<open>rpc\<close> first. Lines 101
  and 103 read \<open>InvalidParamsError\<close> and \<open>InternalError\<close> unqualified.
\<close>

definition dispatch :: "registry \<Rightarrow> string \<Rightarrow> pyval list \<Rightarrow> pydict \<Rightarrow> exn + pyval" where
  "dispatch funcs method as kws =
     (case funcs method of
        None \<Rightarrow>
          (case read_global ''rpc'' of
             Inl e \<Rightarrow> Inl e
           | Inr _ \<Rightarrow> Inl (Exc MethodNotFoundError [PyStr method]))
      | Some func \<Rightarrow>
          (case fn_call func as kws of
             Inr v \<Rightarrow> Inr v
           | Inl e \<Rightarrow>
               if is_TypeError (cls e) then Inl (Exc InvalidParamsError [PyStr (exc_str e)])
               else if is_Exception (cls e) then Inl (Exc InternalError [PyStr (exc_str e)])
               else Inl e))"

subsection \<open>The demonstration function of jsonrpc.py, line 172: \<open>lambda x, y: x + y\<close>\<close>

text \<open>
  \<open>x + y\<close> adds integers (a boolean counts as 0 or 1) and joins two strings, two lists
  or two tuples; on anything else it raises \<open>TypeError\<close>, with the message of the left
  operand's type (for a string, that of a byte string: \<open>pyval\<close> has one type of
  strings).
\<close>

definition type_name :: "pyval \<Rightarrow> string" where
  "type_name v = (case v of
       PyNone \<Rightarrow> ''NoneType'' | PyBool b \<Rightarrow> ''bool'' | PyInt i \<Rightarrow> ''int'' | PyStr s \<Rightarrow> ''str''
     | PyTuple xs \<Rightarrow> ''tuple'' | PyList xs \<Rightarrow> ''list'' | PyDict d \<Rightarrow> ''dict'')"

definition as_number :: "pyval \<Rightarrow> int option" where
  "as_number v = (case v of
       PyInt i \<Rightarrow> Some i | PyBool b \<Rightarrow> Some (if b then 1 else 0) | _ \<Rightarrow> None)"

definition add_type_error :: "pyval \<Rightarrow> pyval \<Rightarrow> string" where
  \<open>add_type_error a b = (case a of
       PyStr s \<Rightarrow> ''cannot concatenate '' @ [CHR 0x27] @ ''str'' @ [CHR 0x27] @ '' and ''
                   @ [CHR 0x27] @ type_name b @ [CHR 0x27] @ '' objects''
     | PyList xs \<Rightarrow> ''can only concatenate list (not "'' @ type_name b @ ''") to list''
     | PyTuple xs \<Rightarrow> ''can only concatenate tuple (not "'' @ type_name b @ ''") to tuple''
     | _ \<Rightarrow> ''unsupported operand type(s) for +: '' @ [CHR 0x27] @ type_name a @ [CHR 0x27]
              @ '' and '' @ [CHR 0x27] @ type_name b @ [CHR 0x27])\<close>

definition py_add :: "pyval \<Rightarrow> pyval \<Rightarrow> exn + pyval" where
  "py_add a b =
     (case (as_number a, as_number b) of
        (Some i, Some j) \<Rightarrow> Inr (PyInt (i + j))
      | _ \<Rightarrow> (case (a, b) of
                 (PyStr s, PyStr t) \<Rightarrow> Inr (PyStr (s @ t))
               | (PyList xs, PyList ys) \<Rightarrow> Inr (PyList (xs @ ys))
               | (PyTuple xs, PyTuple ys) \<Rightarrow> Inr (PyTuple (xs @ ys))
               | _ \<Rightarrow> Inl (Exc TypeError [PyStr (add_type_error a b)])))"

text \<open>
  The call binds \<open>x\<close> and \<open>y\<close>, as CPython 2 does: more than two positional
  arguments are refused; then each keyword (in the order of the keys here, in that of the
  hash table in CPython) must be \<open>x\<close> or \<open>y\<close> and must not name a parameter that a
  positional argument has filled; then both parameters must be filled.
\<close>

definition takes_exactly_2 :: "nat \<Rightarrow> exn" where
  "takes_exactly_2 given = Exc TypeError
     [PyStr (''<lambda>() takes exactly 2 arguments ('' @ dec_nat given @ '' given)'')]"

definition keyword_error :: "pyval list \<Rightarrow> string \<Rightarrow> exn option" where
  "keyword_error as k =
     (if k \<noteq> ''x'' \<and> k \<noteq> ''y''
      then Some (Exc TypeError
        [PyStr (''<lambda>() got an unexpected keyword argument '' @ [CHR 0x27] @ k @ [CHR 0x27])])
      else if (k = ''x'' \<and> 0 < length as) \<or> (k = ''y'' \<and> 1 < length as)
      then Some (Exc TypeError
        [PyStr (''<lambda>() got multiple values for keyword argument ''
                @ [CHR 0x27] @ k @ [CHR 0x27])])
      else None)"

definition parameter :: "pyval list \<Rightarrow> pydict \<Rightarrow> nat \<Rightarrow> string \<Rightarrow> pyval option" where
  "parameter as kws n name = (if n < length as then Some (as ! n) else fmlookup kws name)"

definition lambda_x_y :: handler where
  "lambda_x_y as kws =
     (let keys = sorted_list_of_fset (fmdom kws) in
      if 2 < length as then Inl (takes_exactly_2 (length as + length keys))
      else case List.map_filter (keyword_error as) keys of
             e # es \<Rightarrow> Inl e
           | [] \<Rightarrow>
               (case (parameter as kws 0 ''x'', parameter as kws 1 ''y'') of
                  (Some x, Some y) \<Rightarrow> py_add x y
                | (Some x, None) \<Rightarrow> Inl (takes_exactly_2 1)
                | (None, Some y) \<Rightarrow> Inl (takes_exactly_2 1)
                | (None, None) \<Rightarrow> Inl (takes_exactly_2 0)))"

definition add_fn :: py_function where
  "add_fn = \<lparr>fn_name = ''<lambda>'', fn_call = lambda_x_y\<rparr>"

definition demo_funcs :: registry where
  "demo_funcs = register_function Map.empty add_fn (Some ''add'')"

section \<open>Serializer (rpc.py, lines 39 to 48; jsonrpc.py, lines 24 to 37)\<close>

text \<open>
  \<open>JSONSerializer\<close> wraps \<open>json.dumps\<close> and \<open>json.loads\<close>, which are a library
  and no code of this repository: the codec is a parameter of the protocol, as it is of
  \<open>Protocol.__init__\<close>. \<open>encode\<close> returns the text or raises, \<open>decode\<close> returns the
  value or raises.
\<close>

record serializer =
  encode :: "pyval \<Rightarrow> exn + string"
  decode :: "string \<Rightarrow> exn + pyval"

text \<open>
  The JSON image of a value: what a JSON codec gives back for it. JSON has one kind of
  array, so a tuple comes back as a list.
\<close>

primrec jsonify :: "pyval \<Rightarrow> pyval" where
  "jsonify PyNone = PyNone"
| "jsonify (PyBool b) = PyBool b"
| "jsonify (PyInt i) = PyInt i"
| "jsonify (PyStr s) = PyStr s"
| "jsonify (PyTuple xs) = PyList (map jsonify xs)"
| "jsonify (PyList xs) = PyList (map jsonify xs)"
| "jsonify (PyDict m) = PyDict (fmmap jsonify m)"



section \<open>Subscripts\<close>

text \<open>
  \<open>v[key]\<close> with a string key: a dictionary returns the member or raises \<open>KeyError\<close>;
  every other value raises \<open>TypeError\<close>.
\<close>

definition no_getitem :: "string \<Rightarrow> string" where
  "no_getitem tp = [CHR 0x27] @ tp @ [CHR 0x27] @ '' object has no attribute ''
     @ [CHR 0x27] @ ''__getitem__'' @ [CHR 0x27]"

definition not_subscriptable :: "pyval \<Rightarrow> string" where
  "not_subscriptable v = (case v of
       PyList xs \<Rightarrow> ''list indices must be integers, not str''
     | PyTuple xs \<Rightarrow> ''tuple indices must be integers, not str''
     | PyStr s \<Rightarrow> ''string indices must be integers, not str''
     | PyNone \<Rightarrow> no_getitem ''NoneType''
     | PyBool b \<Rightarrow> no_getitem ''bool''
     | _ \<Rightarrow> no_getitem ''int'')"

definition getitem :: "pyval \<Rightarrow> string \<Rightarrow> exn + pyval" where
  "getitem v key = (case v of
       PyDict d \<Rightarrow> (case fmlookup d key of
                      None \<Rightarrow> Inl (Exc KeyError [PyStr key])
                    | Some x \<Rightarrow> Inr x)
     | _ \<Rightarrow> Inl (Exc TypeError [PyStr (not_subscriptable v)]))"

section \<open>The error tables (jsonrpc.py, lines 6 to 21)\<close>

text \<open>
  \<open>ERRORS\<close> maps a class to a dictionary object. The objects are created once, when
  the module is loaded, and the table is never assigned to afterwards: the object of a
  class is identified by the class, and the state of the module is the contents of the
  five objects. \<open>ERRORS\<close> below is that state when the module has been loaded.
\<close>

type_synonym errors_table = "exc_class \<rightharpoonup> pydict"

definition error_object :: "int \<Rightarrow> string \<Rightarrow> pydict" where
  "error_object c m = fmupd ''message'' (PyStr m) (fmupd ''code'' (PyInt c) fmempty)"

definition ERRORS :: errors_table where
  "ERRORS = [ParseError \<mapsto> error_object (- 32700) ''Parse Error'',
             InvalidRequestError \<mapsto> error_object (- 32600) ''Invalid Request'',
             MethodNotFoundError \<mapsto> error_object (- 32601) ''Method not found'',
             InvalidParamsError \<mapsto> error_object (- 32602) ''Invalid params'',
             InternalError \<mapsto> error_object (- 32603) ''Internal error'']"

definition EXCEPTIONS :: "int \<rightharpoonup> exc_class" where
  "EXCEPTIONS = [- 32700 \<mapsto> ParseError,
                 - 32600 \<mapsto> InvalidRequestError,
                 - 32601 \<mapsto> MethodNotFoundError,
                 - 32602 \<mapsto> InvalidParamsError,
                 - 32603 \<mapsto> InternalError]"

text \<open>
  \<open>EXCEPTIONS[code]\<close> for any value: a list or a dictionary (or a tuple that holds
  one) cannot be hashed and raises \<open>TypeError\<close>; an integer is looked up, a boolean as
  0 or 1; any other value is no key of the table.
\<close>

fun hashable :: "pyval \<Rightarrow> bool" where
  "hashable (PyList xs) = False"
| "hashable (PyDict m) = False"
| "hashable (PyTuple xs) = (\<forall>x \<in> set xs. hashable x)"
| "hashable v = True"

definition exception_of_code :: "pyval \<Rightarrow> exn + exc_class" where
  "exception_of_code code =
     (if \<not> hashable code then Inl (Exc TypeError [PyStr ''unhashable type''])
      else case (case code of PyInt i \<Rightarrow> EXCEPTIONS i
                 | PyBool b \<Rightarrow> EXCEPTIONS (if b then 1 else 0)
                 | _ \<Rightarrow> None) of
             None \<Rightarrow> Inl (Exc KeyError [code])
           | Some c \<Rightarrow> Inr c)"

section \<open>Protocol (jsonrpc.py, lines 40 to 153)\<close>

subsection \<open>\<open>marshall_request\<close>, lines 46 to 63\<close>

definition request_object :: "string \<Rightarrow> pyval list \<Rightarrow> pydict \<Rightarrow> pydict" where
  "request_object method as kws =
     (let req = fmupd ''method'' (PyStr method) (fmupd ''jsonrpc'' (PyStr ''2.0'') fmempty);
          req = (if as \<noteq> [] \<or> kws \<noteq> fmempty
                 then fmupd ''params'' (if as \<noteq> [] then PyTuple as else PyDict kws) req
                 else req)
      in fmupd ''id'' (PyInt 0) req)"


subsection \<open>\<open>unmarshall_request\<close>, lines 65 to 91\<close>

text \<open>
  The two checks of the envelope, each a \<open>try\<close> that turns a \<open>KeyError\<close> into the
  protocol's error and lets any other exception pass. \<open>require_version\<close> serves the
  request (lines 70 to 74) and the response (lines 118 to 122), which differ in the class
  and the messages.
\<close>

definition require_version :: "pyval \<Rightarrow> exc_class \<Rightarrow> string \<Rightarrow> string \<Rightarrow> exn + unit" where
  "require_version msg c unsupported missing =
     (case getitem msg ''jsonrpc'' of
        Inl e \<Rightarrow> if cls e = KeyError then Inl (Exc c [PyStr missing]) else Inl e
      | Inr v \<Rightarrow> if v \<noteq> PyStr ''2.0'' then Inl (Exc c [PyStr unsupported]) else Inr ())"

definition require_method :: "pyval \<Rightarrow> exn + string" where
  \<open>require_method request =
     (case getitem request ''method'' of
        Inl e \<Rightarrow> if cls e = KeyError
                 then Inl (Exc InvalidRequestError [PyStr ''No "method" member found''])
                 else Inl e
      | Inr (PyStr m) \<Rightarrow> Inr m
      | Inr _ \<Rightarrow> Inl (Exc InvalidRequestError [PyStr ''"method" member must be string'']))\<close>

text \<open>
  Line 89 passes every key of the keyword arguments through \<open>str\<close>. The keys of a
  decoded mapping are unicode strings, and \<open>str\<close> encodes one with the ASCII codec: it
  returns the key as it is when all its characters are below 128 and raises
  \<open>UnicodeEncodeError\<close> otherwise (a character beyond 127 is a \<open>char\<close> from 128 on
  here). The first key that fails raises: the first in the order of the keys here, in
  that of the hash table in CPython.
\<close>

definition is_ascii :: "string \<Rightarrow> bool" where
  "is_ascii s = (\<forall>c \<in> set s. (of_char c :: nat) < 128)"

definition unicode_encode_error :: "string \<Rightarrow> exn" where
  "unicode_encode_error k =
     (let start = length (takeWhile (\<lambda>c. (of_char c :: nat) < 128) k);
          end = start + length (takeWhile (\<lambda>c. 128 \<le> (of_char c :: nat)) (drop start k))
      in Exc UnicodeEncodeError [PyStr ''ascii'', PyStr k, PyInt (int start), PyInt (int end),
           PyStr ''ordinal not in range(128)''])"

definition str_keys :: "pydict \<Rightarrow> exn + pydict" where
  "str_keys kws =
     (case filter (\<lambda>k. \<not> is_ascii k) (sorted_list_of_fset (fmdom kws)) of
        [] \<Rightarrow> Inr kws
      | k # ks \<Rightarrow> Inl (unicode_encode_error k))"

text \<open>
  Lines 85 to 89. \<open>request.get\<close> is reached with a dictionary only: on anything else
  line 71 has raised.
\<close>

definition request_params :: "pydict \<Rightarrow> exn + (pyval \<times> pydict)" where
  "request_params request =
     (case fmlookup request ''params'' of
        None \<Rightarrow> Inr (PyTuple [], fmempty)
      | Some (PyDict kws) \<Rightarrow>
          (case str_keys kws of Inl e \<Rightarrow> Inl e | Inr kws' \<Rightarrow> Inr (PyTuple [], kws'))
      | Some as \<Rightarrow> Inr (as, fmempty))"

definition unmarshall_request ::
  "serializer \<Rightarrow> string \<Rightarrow> exn + (pydict \<times> string \<times> pyval \<times> pydict)" where
  \<open>unmarshall_request ser data =
     (case decode ser data of
        Inl e \<Rightarrow> Inl e
      | Inr request \<Rightarrow>
          (case require_version request InvalidRequestError
                  ''Only JSON-RPC 2.0 is supported'' ''No "jsonrpc" member found'' of
             Inl e \<Rightarrow> Inl e
           | Inr _ \<Rightarrow>
               (case require_method request of
                  Inl e \<Rightarrow> Inl e
                | Inr method \<Rightarrow>
                    (case request of
                       PyDict d \<Rightarrow>
                         (case request_params d of
                            Inl e \<Rightarrow> Inl e
                          | Inr (as, kws) \<Rightarrow> Inr (d, method, as, kws))
                     | _ \<Rightarrow> Inl (Exc TypeError [PyStr (not_subscriptable request)])))))\<close>

subsection \<open>\<open>marshall_error\<close>, lines 139 to 145\<close>

text \<open>
  The function returns the object of the table itself, with its \<open>data\<close> member set,
  or \<open>None\<close> when the class is no key: the result is the reference (the class that
  identifies the object) and the new state of the table. \<open>exc.args or None\<close> is
  \<open>None\<close> for an empty tuple.
\<close>

definition args_or_None :: "exn \<Rightarrow> pyval" where
  "args_or_None exc = (if args exc = [] then PyNone else PyTuple (args exc))"

definition marshall_error :: "errors_table \<Rightarrow> exn \<Rightarrow> exc_class option \<times> errors_table" where
  "marshall_error tbl exc =
     (case tbl (cls exc) of
        None \<Rightarrow> (None, tbl)
      | Some error \<Rightarrow> (Some (cls exc), tbl(cls exc \<mapsto> fmupd ''data'' (args_or_None exc) error)))"

text \<open>What a reference is read as, in a given state of the table.\<close>

definition deref :: "errors_table \<Rightarrow> exc_class option \<Rightarrow> pyval" where
  "deref tbl r = (case r of
       None \<Rightarrow> PyNone
     | Some c \<Rightarrow> (case tbl c of None \<Rightarrow> PyNone | Some error \<Rightarrow> PyDict error))"

subsection \<open>\<open>unmarshall_error\<close>, lines 147 to 153\<close>

text \<open>
  The result is an exception, or \<open>None\<close> where a \<open>KeyError\<close> was caught; any other
  exception passes.
\<close>

definition format_message :: "pyval \<Rightarrow> pyval \<Rightarrow> string" where
  "format_message message data = py_str message @ '': '' @ py_str data"

definition unmarshall_error :: "pyval \<Rightarrow> exn + exn option" where
  "unmarshall_error error =
     (case (case getitem error ''code'' of
              Inl e \<Rightarrow> Inl e
            | Inr code \<Rightarrow>
                (case getitem error ''message'' of
                   Inl e \<Rightarrow> Inl e
                 | Inr message \<Rightarrow>
                     (case getitem error ''data'' of
                        Inl e \<Rightarrow> Inl e
                      | Inr data \<Rightarrow>
                          (case exception_of_code code of
                             Inl e \<Rightarrow> Inl e
                           | Inr c \<Rightarrow> Inr (Exc c [PyStr (format_message message data)]))))) of
        Inl e \<Rightarrow> if cls e = KeyError then Inr None else Inl e
      | Inr exc \<Rightarrow> Inr (Some exc))"

subsection \<open>\<open>marshall_response\<close>, lines 93 to 111\<close>

text \<open>
  \<open>request\<close> is \<open>None\<close> or the dictionary that \<open>unmarshall_request\<close> returned; an
  empty dictionary is false. The result is \<open>None\<close> (line 97) or the encoded response.
  The \<open>error\<close> member is the object that \<open>marshall_error\<close> returned, encoded in the
  state that the call left.
\<close>

definition truthy :: "pydict option \<Rightarrow> bool" where
  "truthy request = (case request of None \<Rightarrow> False | Some d \<Rightarrow> d \<noteq> fmempty)"

definition has_member :: "string \<Rightarrow> pydict option \<Rightarrow> bool" where
  "has_member key request = (case request of None \<Rightarrow> False | Some d \<Rightarrow> key |\<in>| fmdom d)"

definition response_id :: "pydict option \<Rightarrow> exn + pyval" where
  "response_id request =
     (if truthy request
      then (case request of Some d \<Rightarrow> getitem (PyDict d) ''id'' | None \<Rightarrow> Inr PyNone)
      else Inr PyNone)"

definition marshall_response ::
  "serializer \<Rightarrow> errors_table \<Rightarrow> pydict option \<Rightarrow> pyval \<Rightarrow> exn option
     \<Rightarrow> (exn + string option) \<times> errors_table" where
  "marshall_response ser tbl request result error =
     (if truthy request \<and> \<not> has_member ''id'' request then (Inr None, tbl)
      else case response_id request of
             Inl e \<Rightarrow> (Inl e, tbl)
           | Inr i \<Rightarrow>
               (let resp = fmupd ''id'' i (fmupd ''jsonrpc'' (PyStr ''2.0'') fmempty)
                in case error of
                     Some exc \<Rightarrow>
                       (case marshall_error tbl exc of
                          (r, tbl') \<Rightarrow>
                            (map_sum id Some
                               (encode ser (PyDict (fmupd ''error'' (deref tbl' r) resp))), tbl'))
                   | None \<Rightarrow>
                       (map_sum id Some (encode ser (PyDict (fmupd ''result'' result resp))), tbl)))"

subsection \<open>\<open>unmarshall_response\<close>, lines 113 to 137\<close>

text \<open>
  Line 130 raises what \<open>unmarshall_error\<close> returned. Raising \<open>None\<close> is itself a
  \<open>TypeError\<close> in Python 2.
\<close>

definition raise_value :: "exn option \<Rightarrow> exn" where
  "raise_value v = (case v of
       Some exc \<Rightarrow> exc
     | None \<Rightarrow> Exc TypeError [PyStr
         ''exceptions must be old-style classes or derived from BaseException, not NoneType''])"

definition unmarshall_response :: "serializer \<Rightarrow> string \<Rightarrow> exn + (pydict \<times> pyval)" where
  \<open>unmarshall_response ser data =
     (case decode ser data of
        Inl e \<Rightarrow> Inl e
      | Inr response \<Rightarrow>
          (case require_version response InvalidResponseError
                  ''Only JSON-RPC 2.0 supported'' ''No "jsonrpc" member in response'' of
             Inl e \<Rightarrow> Inl e
           | Inr _ \<Rightarrow>
               (case response of
                  PyDict d \<Rightarrow>
                    if ''id'' |\<notin>| fmdom d
                    then Inl (Exc InvalidResponseError [PyStr ''No "id" member found in response''])
                    else (case fmlookup d ''error'' of
                            Some error \<Rightarrow>
                              (case unmarshall_error error of
                                 Inl e \<Rightarrow> Inl e
                               | Inr v \<Rightarrow> Inl (raise_value v))
                          | None \<Rightarrow>
                              (case fmlookup d ''result'' of
                                 Some result \<Rightarrow> Inr (d, result)
                               | None \<Rightarrow> Inl (Exc InvalidResponseError [PyStr
                                   ''No "result" or "error" member found in response''])))
                | _ \<Rightarrow> Inl (Exc TypeError [PyStr (not_subscriptable response)]))))\<close>

section \<open>Server (rpc.py, lines 106 to 135)\<close>

record server =
  protocol :: serializer
  dispatcher :: registry

text \<open>
  Line 114 calls \<open>dispatch(method, *args, **kwargs)\<close>. \<open>*args\<close> takes the items of a
  tuple or a list and the characters of a string, and raises \<open>TypeError\<close> on a value
  that is no sequence (a dictionary never comes here: it is the keyword arguments). A
  keyword named as a parameter of \<open>dispatch\<close> itself raises \<open>TypeError\<close> too.
\<close>

definition star_args :: "pyval \<Rightarrow> exn + pyval list" where
  "star_args v = (case v of
       PyTuple xs \<Rightarrow> Inr xs
     | PyList xs \<Rightarrow> Inr xs
     | PyStr s \<Rightarrow> Inr (map (\<lambda>c. PyStr [c]) s)
     | PyDict d \<Rightarrow> Inr (map PyStr (sorted_list_of_fset (fmdom d)))
     | _ \<Rightarrow> Inl (Exc TypeError [PyStr ''dispatch() argument after * must be a sequence'']))"

definition call_dispatch :: "registry \<Rightarrow> string \<Rightarrow> pyval \<Rightarrow> pydict \<Rightarrow> exn + pyval" where
  "call_dispatch funcs method as kws =
     (case star_args as of
        Inl e \<Rightarrow> Inl e
      | Inr xs \<Rightarrow>
          if ''self'' |\<in>| fmdom kws \<or> ''method'' |\<in>| fmdom kws
          then Inl (Exc TypeError [PyStr ''dispatch() got multiple values for keyword argument''])
          else dispatch funcs method xs kws)"

text \<open>
  The body of the \<open>try\<close>, lines 112 to 114: the value of \<open>request\<close> when the body
  is left (it is assigned when \<open>unmarshall_request\<close> has returned) and the result of
  the body or the exception that it raised.
\<close>

definition try_body :: "server \<Rightarrow> string \<Rightarrow> pydict option \<times> (exn + pyval)" where
  "try_body srv data =
     (case unmarshall_request (protocol srv) data of
        Inl e \<Rightarrow> (None, Inl e)
      | Inr (request, method, as, kws) \<Rightarrow>
          (Some request, call_dispatch (dispatcher srv) method as kws))"

text \<open>
  Lines 122 and 123: what is sent, \<open>None\<close> when nothing is. An exception of
  \<open>marshall_response\<close> leaves the handler.
\<close>

definition send_response ::
  "(exn + string option) \<times> errors_table \<Rightarrow> (exn + string option) \<times> errors_table" where
  "send_response r =
     (case r of
        (Inl e, tbl) \<Rightarrow> (Inl e, tbl)
      | (Inr response, tbl) \<Rightarrow>
          (Inr (case response of
                  None \<Rightarrow> None
                | Some text \<Rightarrow> if text \<noteq> [] then Some text else None), tbl))"

text \<open>
  \<open>handle\<close> on the data that \<open>socket_read\<close> returned: the exception that leaves the
  handler, or what is sent, and the state of the error table. \<open>except Error\<close> catches
  the classes of rpc.py only.
\<close>

definition handle ::
  "server \<Rightarrow> errors_table \<Rightarrow> string \<Rightarrow> (exn + string option) \<times> errors_table" where
  "handle srv tbl data =
     (case try_body srv data of
        (request, Inr result) \<Rightarrow>
          send_response (marshall_response (protocol srv) tbl request result None)
      | (request, Inl e) \<Rightarrow>
          if is_Error (cls e)
          then send_response (marshall_response (protocol srv) tbl request PyNone (Some e))
          else (Inl e, tbl))"

section \<open>A codec for the examples\<close>

text \<open>
  A codec that knows the texts of a book of values: it writes a value of the book as
  its text and refuses any other, and it reads a text of the book as the JSON image of
  its value and refuses any other.
\<close>

definition book_serializer :: "(string \<times> pyval) list \<Rightarrow> serializer" where
  "book_serializer book =
     \<lparr>encode = (\<lambda>v. case find (\<lambda>(text, v'). v' = v) book of
                       Some (text, v') \<Rightarrow> Inr text
                     | None \<Rightarrow> Inl (Exc TypeError [PyStr ''is not JSON serializable''])),
      decode = (\<lambda>text. case map_of book text of
                          Some v \<Rightarrow> Inr (jsonify v)
                        | None \<Rightarrow> Inl (Exc ParseError [PyStr ''No JSON object could be decoded'']))\<rparr>"

text \<open>A notification, and the response to a request that could not be read.\<close>

definition notification :: pydict where
  "notification = fmupd ''method'' (PyStr ''log'') (fmupd ''jsonrpc'' (PyStr ''2.0'') fmempty)"

definition null_response :: pydict where
  "null_response =
     fmupd ''result'' (PyInt 42) (fmupd ''id'' PyNone (fmupd ''jsonrpc'' (PyStr ''2.0'') fmempty))"

definition null_error_response :: pydict where
  "null_error_response =
     fmupd ''error'' PyNone (fmupd ''id'' PyNone (fmupd ''jsonrpc'' (PyStr ''2.0'') fmempty))"

text \<open>A value that is a mapping.\<close>

definition is_mapping :: "pyval \<Rightarrow> bool" where
  "is_mapping v = (case v of PyDict d \<Rightarrow> True | _ \<Rightarrow> False)"

text \<open>
  The server of the examples, with \<open>add\<close> registered, and what it answers to data that
  cannot be decoded.
\<close>

definition demo_server :: "(string \<times> pyval) list \<Rightarrow> server" where
  "demo_server book = \<lparr>protocol = book_serializer book, dispatcher = demo_funcs\<rparr>"

definition parse_error :: exn where
  "parse_error = Exc ParseError [PyStr ''No JSON object could be decoded'']"

definition parse_error_response :: pydict where
  "parse_error_response =
     fmupd ''error''
       (PyDict (fmupd ''data'' (PyTuple [PyStr ''No JSON object could be decoded''])
          (error_object (- 32700) ''Parse Error'')))
       (fmupd ''id'' PyNone (fmupd ''jsonrpc'' (PyStr ''2.0'') fmempty))"

definition parse_error_text :: string where
  \<open>parse_error_text = ''{"jsonrpc": "2.0", "id": null, "error": {"code": -32700, "message": "Parse Error", "data": ["No JSON object could be decoded"]}}''\<close>

text \<open>
  A code that is a key of \<open>EXCEPTIONS\<close>, and the responses of the examples: one whose
  error has a code that is no key, one that has an error and a result.
\<close>

definition known_code :: "pyval \<Rightarrow> bool" where
  "known_code code = (case code of PyInt i \<Rightarrow> i \<in> dom EXCEPTIONS | _ \<Rightarrow> False)"

definition unknown_code_response :: pydict where
  "unknown_code_response =
     fmupd ''error''
       (PyDict (fmupd ''data'' PyNone (fmupd ''message'' (PyStr ''boom'')
          (fmupd ''code'' (PyInt (- 1)) fmempty))))
       (fmupd ''id'' (PyInt 0) (fmupd ''jsonrpc'' (PyStr ''2.0'') fmempty))"

definition unknown_code_text :: string where
  \<open>unknown_code_text = ''{"jsonrpc": "2.0", "id": 0, "error": {"code": -1, "message": "boom", "data": null}}''\<close>




text \<open>
  For the round trip of an error: the state of the table after \<open>marshall_error\<close> has
  been called on a list of errors, the message that the table has for a class, the
  round trip itself (\<open>unmarshall_error\<close> on the object that \<open>marshall_error\<close>
  returned), the strings that \<open>repr\<close> writes without an escape (printable ASCII,
  no backslash, not both kinds of quote), and the tables whose objects have the codes and
  messages of \<open>ERRORS\<close>.
\<close>

definition table_after :: "exn list \<Rightarrow> errors_table" where
  "table_after es = foldl (\<lambda>tbl e. snd (marshall_error tbl e)) ERRORS es"

definition error_title :: "exc_class \<Rightarrow> string" where
  "error_title c = (case ERRORS c of
       None \<Rightarrow> []
     | Some error \<Rightarrow> (case fmlookup error ''message'' of None \<Rightarrow> [] | Some m \<Rightarrow> py_str m))"

definition verbatim :: "string \<Rightarrow> bool" where
  "verbatim s =
     ((\<forall>c \<in> set s. 32 \<le> (of_char c :: nat) \<and> (of_char c :: nat) < 127 \<and> c \<noteq> CHR 0x5C)
      \<and> (CHR 0x27 \<notin> set s \<or> CHR 0x22 \<notin> set s))"

definition error_roundtrip :: "errors_table \<Rightarrow> exn \<Rightarrow> exn + exn option" where
  "error_roundtrip tbl exc =
     (case marshall_error tbl exc of (r, tbl') \<Rightarrow> unmarshall_error (deref tbl' r))"

definition intact :: "errors_table \<Rightarrow> bool" where
  "intact tbl = (\<forall>c d0. ERRORS c = Some d0 \<longrightarrow>
     (\<exists>d. tbl c = Some d \<and> fmlookup d ''code'' = fmlookup d0 ''code''
        \<and> fmlookup d ''message'' = fmlookup d0 ''message''))"

subsection \<open>A call of \<open>add\<close> with one argument\<close>

text \<open>
  The request \<open>add(2)\<close>, the \<open>InvalidParamsError\<close> that \<open>dispatch\<close> makes of the
  \<open>TypeError\<close> of the call, and the response that carries it.
\<close>

definition add_one_text :: string where
  \<open>add_one_text = ''{"jsonrpc": "2.0", "method": "add", "params": [2], "id": 0}''\<close>

definition add_one_request :: pydict where
  "add_one_request = request_object ''add'' [PyInt 2] fmempty"

definition invalid_params :: exn where
  "invalid_params = Exc InvalidParamsError [PyStr ''<lambda>() takes exactly 2 arguments (1 given)'']"

definition invalid_params_response :: pydict where
  "invalid_params_response =
     fmupd ''error''
       (PyDict (fmupd ''data'' (PyTuple [PyStr ''<lambda>() takes exactly 2 arguments (1 given)''])
          (error_object (- 32602) ''Invalid params'')))
       (fmupd ''id'' (PyInt 0) (fmupd ''jsonrpc'' (PyStr ''2.0'') fmempty))"

definition invalid_params_text :: string where
  \<open>invalid_params_text = ''{"jsonrpc": "2.0", "id": 0, "error": {"code": -32602, "message": "Invalid params", "data": ["<lambda>() takes exactly 2 arguments (1 given)"]}}''\<close>

definition add_one_server :: server where
  "add_one_server = demo_server
     [(invalid_params_text, PyDict invalid_params_response), (add_one_text, PyDict add_one_request)]"

section \<open>Properties of the dispatcher\<close>

lemma rpc_not_global: "read_global ''rpc'' =
    Inl (Exc NameError [PyStr ''global name 'rpc' is not defined''])"
  by (simp add: read_global_def rpc_globals_def py_repr_str_def repr_quote_def repr_char_def Let_def)

lemma dispatch_unregistered:
  "funcs method = None \<Longrightarrow>
     dispatch funcs method as kws = Inl (Exc NameError [PyStr ''global name 'rpc' is not defined''])"
  by (simp add: dispatch_def rpc_not_global)

text \<open>
  C1. Dispatching a name that is not in the registry should fail with
  \<open>MethodNotFoundError\<close>. With \<open>add\<close> registered, dispatching \<open>sub\<close> fails with a
  \<open>NameError\<close> instead: line 96 names the class through \<open>rpc\<close>, which rpc.py never
  binds.
\<close>

theorem dispatch_unknown_method_NameError:
  "dispatch demo_funcs ''sub'' [PyInt 2, PyInt 3] fmempty =
     Inl (Exc NameError [PyStr ''global name 'rpc' is not defined''])
   \<and> cls (Exc NameError [PyStr ''global name 'rpc' is not defined'']) \<noteq> MethodNotFoundError"
  by (simp add: dispatch_unregistered demo_funcs_def register_function_def)

section \<open>Properties of \<open>marshall_response\<close>\<close>

lemma fmupd_not_empty: "fmupd k v m \<noteq> fmempty"
proof
  assume "fmupd k v m = fmempty"
  then have "fmlookup (fmupd k v m) k = fmlookup fmempty k" by simp
  then show False by simp
qed

text \<open>
  C4, as amended. For every request mapping that is not empty and has no \<open>id\<close> member,
  \<open>marshall_response\<close> returns nothing, whatever the result and the error, and the
  handler sends nothing. (A request that \<open>unmarshall_request\<close> returned has the
  \<open>jsonrpc\<close> and \<open>method\<close> members, so it is not empty.)
\<close>

theorem notification_no_response:
  "request \<noteq> fmempty \<Longrightarrow> ''id'' |\<notin>| fmdom request \<Longrightarrow>
     marshall_response ser tbl (Some request) result error = (Inr None, tbl)
     \<and> send_response (marshall_response ser tbl (Some request) result error) = (Inr None, tbl)"
  by (simp add: marshall_response_def truthy_def has_member_def send_response_def)

theorem notification_no_response_witness:
  "notification \<noteq> fmempty \<and> ''id'' |\<notin>| fmdom notification
   \<and> marshall_response (book_serializer []) ERRORS (Some notification) (PyInt 42) None
       = (Inr None, ERRORS)"
  using notification_no_response [of notification "book_serializer []" ERRORS "PyInt 42" None]
  by (simp add: notification_def fmupd_not_empty)

text \<open>
  C4 as stated includes the empty mapping. The empty mapping has no \<open>id\<close> member, but it
  is false in line 96, as \<open>None\<close> is: line 103 gives the response the id \<open>null\<close> and
  the response is encoded and returned.
\<close>

theorem empty_request_counterexample:
  \<open>''id'' |\<notin>| fmdom (fmempty :: pydict)
   \<and> marshall_response
        (book_serializer [(''{"jsonrpc": "2.0", "id": null, "result": 42}'', PyDict null_response)])
        ERRORS (Some fmempty) (PyInt 42) None
      = (Inr (Some ''{"jsonrpc": "2.0", "id": null, "result": 42}''), ERRORS)\<close>
  by (simp add: marshall_response_def truthy_def has_member_def response_id_def
      book_serializer_def null_response_def)

section \<open>Properties of \<open>marshall_error\<close>\<close>

lemma dom_ERRORS: "dom ERRORS =
  {ParseError, InvalidRequestError, MethodNotFoundError, InvalidParamsError, InternalError}"
  by (auto simp: ERRORS_def split: if_splits)

text \<open>
  C7, as amended. For an error whose class is no key of the table, \<open>marshall_error\<close>
  returns \<open>None\<close> and leaves the table as it is, and \<open>marshall_response\<close> (for a
  request that is absent, empty or has an id) still builds and encodes a response: its
  \<open>error\<close> member is \<open>null\<close>. No error object is on the wire; the envelope is.
\<close>

theorem unknown_kind_null_error:
  assumes "cls exc \<notin> dom ERRORS" and "dom tbl = dom ERRORS"
    and "\<not> (truthy request \<and> \<not> has_member ''id'' request)"
    and "response_id request = Inr i"
  shows "marshall_error tbl exc = (None, tbl)
     \<and> marshall_response ser tbl request result (Some exc) =
         (map_sum id Some (encode ser (PyDict
            (fmupd ''error'' PyNone (fmupd ''id'' i (fmupd ''jsonrpc'' (PyStr ''2.0'') fmempty))))),
          tbl)"
proof -
  from assms(1,2) have "tbl (cls exc) = None" by auto
  then have me: "marshall_error tbl exc = (None, tbl)"
    by (simp add: marshall_error_def)
  from assms(3) have n: "(truthy request \<and> \<not> has_member ''id'' request) = False"
    by simp
  show ?thesis
    using assms(4) me by (simp add: marshall_response_def deref_def n)
qed

theorem unknown_kind_null_error_witness:
  \<open>ProtocolError \<notin> dom ERRORS \<and> dom ERRORS = dom ERRORS
   \<and> response_id None = Inr PyNone
   \<and> marshall_error ERRORS (Exc ProtocolError [PyStr ''misuse'']) = (None, ERRORS)
   \<and> marshall_response (book_serializer []) ERRORS None PyNone (Some (Exc ProtocolError [PyStr ''misuse'']))
       = (Inl (Exc TypeError [PyStr ''is not JSON serializable'']), ERRORS)\<close>
  using unknown_kind_null_error [of "Exc ProtocolError [PyStr ''misuse'']" ERRORS None PyNone
      "book_serializer []" PyNone]
  by (simp add: dom_ERRORS response_id_def truthy_def has_member_def book_serializer_def)

text \<open>
  C7 as stated says that nothing is sent. With \<open>ProtocolError\<close>, which the table does
  not hold, the response to an unreadable request is encoded and sent, with the members
  \<open>jsonrpc\<close>, \<open>id\<close> and \<open>error\<close>, the last one \<open>null\<close>.
\<close>

theorem unknown_kind_counterexample:
  \<open>ERRORS ProtocolError = None
   \<and> send_response (marshall_response
        (book_serializer [(''{"jsonrpc": "2.0", "id": null, "error": null}'', PyDict null_error_response)])
        ERRORS None PyNone (Some (Exc ProtocolError [PyStr ''misuse''])))
      = (Inr (Some ''{"jsonrpc": "2.0", "id": null, "error": null}''), ERRORS)\<close>
  by (simp add: marshall_response_def truthy_def has_member_def response_id_def marshall_error_def
      deref_def send_response_def book_serializer_def null_error_response_def ERRORS_def)

text \<open>
  C8, as amended. For an error whose class is a key of the table, \<open>marshall_error\<close>
  changes the object of that class in the table: its \<open>data\<close> member becomes the
  argument tuple of the error, or \<open>None\<close> when that tuple is empty. What is returned is
  the object itself, so a second call for the same class returns the same object, and
  the object that the first call returned then shows the data of the second error.
\<close>

theorem marshall_error_aliases_table:
  assumes "tbl (cls e1) = Some d" and "cls e2 = cls e1"
  shows "marshall_error tbl e1 =
           (Some (cls e1),
            tbl(cls e1 \<mapsto> fmupd ''data'' (if args e1 = [] then PyNone else PyTuple (args e1)) d))
     \<and> marshall_error (snd (marshall_error tbl e1)) e2 =
           (Some (cls e1),
            tbl(cls e1 \<mapsto> fmupd ''data'' (if args e2 = [] then PyNone else PyTuple (args e2)) d))
     \<and> deref (snd (marshall_error (snd (marshall_error tbl e1)) e2)) (fst (marshall_error tbl e1)) =
           PyDict (fmupd ''data'' (if args e2 = [] then PyNone else PyTuple (args e2)) d)"
  using assms by (simp add: marshall_error_def args_or_None_def deref_def)

theorem marshall_error_aliases_table_witness:
  "ERRORS (cls (Exc InternalError [PyStr ''first''])) = Some (error_object (- 32603) ''Internal error'')
   \<and> cls (Exc InternalError [PyStr ''second'']) = cls (Exc InternalError [PyStr ''first''])
   \<and> marshall_error ERRORS (Exc InternalError [PyStr ''first'']) =
        (Some InternalError,
         ERRORS(InternalError \<mapsto>
           fmupd ''data'' (PyTuple [PyStr ''first'']) (error_object (- 32603) ''Internal error'')))
   \<and> deref (snd (marshall_error (snd (marshall_error ERRORS (Exc InternalError [PyStr ''first''])))
                   (Exc InternalError [PyStr ''second''])))
        (fst (marshall_error ERRORS (Exc InternalError [PyStr ''first''])))
       = PyDict (fmupd ''data'' (PyTuple [PyStr ''second'']) (error_object (- 32603) ''Internal error''))"
proof -
  have h1: "ERRORS (cls (Exc InternalError [PyStr ''first''])) =
      Some (error_object (- 32603) ''Internal error'')"
    by (simp add: ERRORS_def)
  have h2: "cls (Exc InternalError [PyStr ''second'']) = cls (Exc InternalError [PyStr ''first''])"
    by simp
  note t = marshall_error_aliases_table [of ERRORS "Exc InternalError [PyStr ''first'']"
        "error_object (- 32603) ''Internal error''" "Exc InternalError [PyStr ''second'']", OF h1 h2]
  from t have c1: "marshall_error ERRORS (Exc InternalError [PyStr ''first'']) =
        (Some InternalError,
         ERRORS(InternalError \<mapsto>
           fmupd ''data'' (PyTuple [PyStr ''first'']) (error_object (- 32603) ''Internal error'')))"
    by simp
  from t have "deref (snd (marshall_error (snd (marshall_error ERRORS (Exc InternalError [PyStr ''first''])))
                   (Exc InternalError [PyStr ''second''])))
        (fst (marshall_error ERRORS (Exc InternalError [PyStr ''first''])))
       = PyDict (fmupd ''data''
           (if args (Exc InternalError [PyStr ''second'']) = [] then PyNone
            else PyTuple (args (Exc InternalError [PyStr ''second''])))
           (error_object (- 32603) ''Internal error''))"
    by blast
  then have c2: "deref (snd (marshall_error (snd (marshall_error ERRORS (Exc InternalError [PyStr ''first''])))
                   (Exc InternalError [PyStr ''second''])))
        (fst (marshall_error ERRORS (Exc InternalError [PyStr ''first''])))
       = PyDict (fmupd ''data'' (PyTuple [PyStr ''second'']) (error_object (- 32603) ''Internal error''))"
    by simp
  from h1 h2 c1 c2 show ?thesis by blast
qed

text \<open>
  C8 as stated sets \<open>data\<close> to the argument tuple. For an error without arguments
  \<open>exc.args or None\<close> is \<open>None\<close>, not the empty tuple.
\<close>

theorem empty_args_counterexample:
  "marshall_error ERRORS (Exc ParseError []) =
     (Some ParseError, ERRORS(ParseError \<mapsto> fmupd ''data'' PyNone (error_object (- 32700) ''Parse Error'')))
   \<and> PyNone \<noteq> PyTuple (args (Exc ParseError []))"
  by (simp add: marshall_error_def args_or_None_def ERRORS_def)

section \<open>Properties of the connection handler\<close>

lemma ERRORS_ParseError: "ERRORS ParseError = Some (error_object (- 32700) ''Parse Error'')"
  by (simp add: ERRORS_def)

lemma dec_nat_1: "dec_nat (Suc 0) = ''1''"
  by code_simp

lemma ERRORS_InvalidParamsError:
  "ERRORS InvalidParamsError = Some (error_object (- 32602) ''Invalid params'')"
  by (simp add: ERRORS_def)

lemma dispatch_failure_is_Error:
  assumes "funcs method = Some func" and "fn_call func xs kws = Inl e'" and "is_Exception (cls e')"
  shows "\<exists>e. dispatch funcs method xs kws = Inl e \<and> is_Error (cls e)"
  using assms by (simp add: dispatch_def)

lemma request_object_members:
  "fmlookup (request_object method as kws) ''jsonrpc'' = Some (PyStr ''2.0'')"
  "fmlookup (request_object method as kws) ''method'' = Some (PyStr method)"
  "fmlookup (request_object method as kws) ''params'' =
     (if as \<noteq> [] then Some (PyTuple as) else if kws \<noteq> fmempty then Some (PyDict kws) else None)"
  by (simp_all add: request_object_def Let_def)

lemma add_one_unmarshalled:
  "unmarshall_request (protocol add_one_server) add_one_text =
     Inr (fmmap jsonify add_one_request, ''add'', PyList [PyInt 2], fmempty)"
  by (simp add: add_one_server_def demo_server_def book_serializer_def unmarshall_request_def
      require_version_def require_method_def getitem_def request_params_def
      add_one_request_def request_object_members add_one_text_def invalid_params_text_def)

lemma no_keywords: "sorted_list_of_fset {||} = []"
  by (simp add: sorted_list_of_fset.rep_eq)

lemma lambda_one_argument: "lambda_x_y [a] fmempty = Inl (takes_exactly_2 1)"
  by (simp add: lambda_x_y_def no_keywords List.map_filter_simps parameter_def)

lemma add_one_dispatched:
  "call_dispatch (dispatcher add_one_server) ''add'' (PyList [PyInt 2]) fmempty = Inl invalid_params"
  by (simp add: add_one_server_def demo_server_def demo_funcs_def register_function_def
      call_dispatch_def star_args_def dispatch_def add_fn_def lambda_one_argument
      takes_exactly_2_def dec_nat_1 is_TypeError_def
      exc_str_def base_str_def py_str_def invalid_params_def)

lemma add_one_answered:
  "send_response (marshall_response (protocol add_one_server) ERRORS
       (Some (fmmap jsonify add_one_request)) PyNone (Some invalid_params))
     = (Inr (Some invalid_params_text),
        ERRORS(InvalidParamsError \<mapsto>
          fmupd ''data'' (PyTuple [PyStr ''<lambda>() takes exactly 2 arguments (1 given)''])
            (error_object (- 32602) ''Invalid params'')))"
  by (simp add: marshall_response_def truthy_def has_member_def response_id_def getitem_def
      add_one_request_def request_object_def Let_def fmmap_fmupd fmupd_not_empty
      marshall_error_def args_or_None_def deref_def ERRORS_InvalidParamsError send_response_def
      add_one_server_def demo_server_def book_serializer_def invalid_params_def
      invalid_params_response_def invalid_params_text_def)

text \<open>
  C3, as amended. When unmarshalling the request fails with an exception of class
  \<open>Error\<close> or of one of its subclasses, the exception is passed to
  \<open>marshall_response\<close> as the error, with the request \<open>None\<close> and the result
  \<open>None\<close>; when the request was unmarshalled and dispatching the method fails with such
  an exception, it is passed to \<open>marshall_response\<close> as the error, with that request and
  the result \<open>None\<close>. In both cases the handler sends what \<open>marshall_response\<close>
  returns. An exception of any other class leaves the handler, and \<open>marshall_response\<close>
  is not called.
\<close>

theorem handle_captures_Error:
  "(unmarshall_request (protocol srv) data = Inl e \<longrightarrow>
      handle srv tbl data =
        (if is_Error (cls e)
         then send_response (marshall_response (protocol srv) tbl None PyNone (Some e))
         else (Inl e, tbl)))
   \<and> (unmarshall_request (protocol srv) data = Inr (request, method, as, kws) \<longrightarrow>
      call_dispatch (dispatcher srv) method as kws = Inl e \<longrightarrow>
      handle srv tbl data =
        (if is_Error (cls e)
         then send_response (marshall_response (protocol srv) tbl (Some request) PyNone (Some e))
         else (Inl e, tbl)))"
  by (simp add: handle_def try_body_def)

theorem handle_captures_Error_witness:
  "unmarshall_request (protocol (demo_server [(parse_error_text, PyDict parse_error_response)])) ''{''
     = Inl parse_error
   \<and> is_Error (cls parse_error)
   \<and> handle (demo_server [(parse_error_text, PyDict parse_error_response)]) ERRORS ''{''
       = (Inr (Some parse_error_text),
          ERRORS(ParseError \<mapsto> fmupd ''data'' (PyTuple [PyStr ''No JSON object could be decoded''])
            (error_object (- 32700) ''Parse Error'')))
   \<and> unmarshall_request (protocol add_one_server) add_one_text
       = Inr (fmmap jsonify add_one_request, ''add'', PyList [PyInt 2], fmempty)
   \<and> call_dispatch (dispatcher add_one_server) ''add'' (PyList [PyInt 2]) fmempty = Inl invalid_params
   \<and> is_Error (cls invalid_params)
   \<and> handle add_one_server ERRORS add_one_text
       = (Inr (Some invalid_params_text),
          ERRORS(InvalidParamsError \<mapsto>
            fmupd ''data'' (PyTuple [PyStr ''<lambda>() takes exactly 2 arguments (1 given)''])
              (error_object (- 32602) ''Invalid params'')))"
proof -
  let ?srv = "demo_server [(parse_error_text, PyDict parse_error_response)]"
  have u1: "unmarshall_request (protocol ?srv) ''{'' = Inl parse_error"
    by (simp add: unmarshall_request_def demo_server_def book_serializer_def
        parse_error_def parse_error_text_def)
  have e1: "is_Error (cls parse_error)"
    by (simp add: parse_error_def)
  have m1: "send_response (marshall_response (protocol ?srv) ERRORS None PyNone (Some parse_error))
     = (Inr (Some parse_error_text),
          ERRORS(ParseError \<mapsto> fmupd ''data'' (PyTuple [PyStr ''No JSON object could be decoded''])
            (error_object (- 32700) ''Parse Error'')))"
    by (simp add: marshall_response_def truthy_def has_member_def response_id_def
        marshall_error_def args_or_None_def deref_def ERRORS_ParseError send_response_def
        demo_server_def book_serializer_def parse_error_def parse_error_response_def
        parse_error_text_def)
  from handle_captures_Error [of ?srv "''{''" parse_error ERRORS] u1 e1 m1
  have c1: "handle ?srv ERRORS ''{''
       = (Inr (Some parse_error_text),
          ERRORS(ParseError \<mapsto> fmupd ''data'' (PyTuple [PyStr ''No JSON object could be decoded''])
            (error_object (- 32700) ''Parse Error'')))"
    by simp
  have e2: "is_Error (cls invalid_params)"
    by (simp add: invalid_params_def)
  from handle_captures_Error [of add_one_server add_one_text invalid_params ERRORS
      "fmmap jsonify add_one_request" "''add''" "PyList [PyInt 2]" fmempty]
    add_one_unmarshalled add_one_dispatched e2 add_one_answered
  have c2: "handle add_one_server ERRORS add_one_text
       = (Inr (Some invalid_params_text),
          ERRORS(InvalidParamsError \<mapsto>
            fmupd ''data'' (PyTuple [PyStr ''<lambda>() takes exactly 2 arguments (1 given)''])
              (error_object (- 32602) ''Invalid params'')))"
    by simp
  from u1 e1 c1 add_one_unmarshalled add_one_dispatched e2 c2 show ?thesis by blast
qed

text \<open>
  C3 as stated holds for a failure of any kind. Data that decode to a JSON string make
  \<open>unmarshall_request\<close> fail with a \<open>TypeError\<close>, which \<open>except Error\<close> does not
  catch: the exception leaves the handler and nothing is sent.
\<close>

theorem handle_uncaught_counterexample:
  \<open>unmarshall_request (protocol (demo_server [(''"hi"'', PyStr ''hi'')])) ''"hi"''
     = Inl (Exc TypeError [PyStr ''string indices must be integers, not str''])
   \<and> handle (demo_server [(''"hi"'', PyStr ''hi'')]) ERRORS ''"hi"''
     = (Inl (Exc TypeError [PyStr ''string indices must be integers, not str'']), ERRORS)\<close>
  by (simp add: handle_def try_body_def unmarshall_request_def require_version_def getitem_def
      not_subscriptable_def demo_server_def book_serializer_def)

text \<open>
  C10. For all data that the serializer decodes to a value that is no mapping,
  \<open>unmarshall_request\<close> fails with a \<open>TypeError\<close> (line 71 subscripts the value with
  a string), which is no \<open>Error\<close> of rpc.py, hence neither a \<open>ParseError\<close> nor an
  \<open>InvalidRequestError\<close>; in \<open>handle\<close> it is not caught, and the handler is left with
  that exception: no response is sent and the error table is as it was.
\<close>

theorem non_mapping_request_leaves_handler:
  assumes "decode (protocol srv) data = Inr v" and "\<not> is_mapping v"
  shows "unmarshall_request (protocol srv) data = Inl (Exc TypeError [PyStr (not_subscriptable v)])
     \<and> \<not> is_Error (cls (Exc TypeError [PyStr (not_subscriptable v)]))
     \<and> handle srv tbl data = (Inl (Exc TypeError [PyStr (not_subscriptable v)]), tbl)"
proof -
  from assms(2) have g: "getitem v ''jsonrpc'' = Inl (Exc TypeError [PyStr (not_subscriptable v)])"
    by (cases v) (simp_all add: getitem_def is_mapping_def)
  have u: "unmarshall_request (protocol srv) data = Inl (Exc TypeError [PyStr (not_subscriptable v)])"
    using assms(1) g by (simp add: unmarshall_request_def require_version_def)
  then show ?thesis
    by (simp add: handle_def try_body_def)
qed

theorem non_mapping_request_leaves_handler_witness:
  "decode (protocol (demo_server [(''[1, 2]'', PyList [PyInt 1, PyInt 2])])) ''[1, 2]''
     = Inr (PyList [PyInt 1, PyInt 2])
   \<and> \<not> is_mapping (PyList [PyInt 1, PyInt 2])
   \<and> handle (demo_server [(''[1, 2]'', PyList [PyInt 1, PyInt 2])]) ERRORS ''[1, 2]''
     = (Inl (Exc TypeError [PyStr ''list indices must be integers, not str'']), ERRORS)"
proof -
  have h1: "decode (protocol (demo_server [(''[1, 2]'', PyList [PyInt 1, PyInt 2])])) ''[1, 2]''
     = Inr (PyList [PyInt 1, PyInt 2])"
    by (simp add: demo_server_def book_serializer_def)
  have h2: "\<not> is_mapping (PyList [PyInt 1, PyInt 2])"
    by (simp add: is_mapping_def)
  note t = non_mapping_request_leaves_handler [OF h1 h2, of ERRORS]
  from t have "handle (demo_server [(''[1, 2]'', PyList [PyInt 1, PyInt 2])]) ERRORS ''[1, 2]''
     = (Inl (Exc TypeError [PyStr (not_subscriptable (PyList [PyInt 1, PyInt 2]))]), ERRORS)"
    by blast
  then have c: "handle (demo_server [(''[1, 2]'', PyList [PyInt 1, PyInt 2])]) ERRORS ''[1, 2]''
     = (Inl (Exc TypeError [PyStr ''list indices must be integers, not str'']), ERRORS)"
    by (simp add: not_subscriptable_def)
  from h1 h2 c show ?thesis by blast
qed

section \<open>Properties of \<open>unmarshall_response\<close>\<close>

lemma getitem_dict: "getitem (PyDict d) k =
    (case fmlookup d k of None \<Rightarrow> Inl (Exc KeyError [PyStr k]) | Some x \<Rightarrow> Inr x)"
  by (simp add: getitem_def)

lemma dom_EXCEPTIONS: "dom EXCEPTIONS = {- 32700, - 32600, - 32601, - 32602, - 32603}"
  by (auto simp: EXCEPTIONS_def split: if_splits)

lemma exception_of_unknown_code:
  assumes "\<not> known_code code"
  shows "\<exists>e. exception_of_code code = Inl e \<and> (cls e = KeyError \<or> cls e = TypeError)"
proof (cases "hashable code")
  case False
  then show ?thesis by (simp add: exception_of_code_def)
next
  case True
  have "(case code of PyInt i \<Rightarrow> EXCEPTIONS i
         | PyBool b \<Rightarrow> EXCEPTIONS (if b then 1 else 0) | _ \<Rightarrow> None) = None"
    using assms by (cases code) (auto simp: known_code_def EXCEPTIONS_def)
  with True show ?thesis by (simp add: exception_of_code_def)
qed

lemma unmarshall_unknown_code:
  assumes "fmlookup error ''code'' = Some code" and "\<not> known_code code"
  shows "unmarshall_error (PyDict error) = Inr None
     \<or> (\<exists>e. unmarshall_error (PyDict error) = Inl e \<and> cls e = TypeError)"
proof -
  from exception_of_unknown_code [OF assms(2)] obtain e where
    e: "exception_of_code code = Inl e" "cls e = KeyError \<or> cls e = TypeError" by blast
  show ?thesis
    using assms(1) e
    by (auto simp: unmarshall_error_def getitem_dict split: option.splits)
qed

text \<open>
  C6. For every response that decodes to a mapping with the version \<open>2.0\<close> and an
  \<open>id\<close> member, and whose \<open>error\<close> member is an object with a code that is no key of
  the code table, \<open>unmarshall_response\<close> fails: \<open>unmarshall_error\<close> returns \<open>None\<close>
  (or fails on a code that cannot be hashed), line 130 raises it, and the caller gets a
  \<open>TypeError\<close> and no result.
\<close>

theorem unknown_code_surfaces_failure:
  assumes "decode ser data = Inr (PyDict response)"
    and "fmlookup response ''jsonrpc'' = Some (PyStr ''2.0'')"
    and "''id'' |\<in>| fmdom response"
    and "fmlookup response ''error'' = Some (PyDict error)"
    and "fmlookup error ''code'' = Some code"
    and "\<not> known_code code"
  shows "\<exists>e. unmarshall_response ser data = Inl e \<and> cls e = TypeError"
proof -
  have u: "unmarshall_response ser data =
      (case unmarshall_error (PyDict error) of Inl e \<Rightarrow> Inl e | Inr v \<Rightarrow> Inl (raise_value v))"
    using assms(1-4)
    by (simp add: unmarshall_response_def require_version_def getitem_dict)
  from unmarshall_unknown_code [OF assms(5,6)] show ?thesis
    by (auto simp: u raise_value_def)
qed

theorem unknown_code_surfaces_failure_witness:
  "decode (book_serializer [(unknown_code_text, PyDict unknown_code_response)]) unknown_code_text
     = Inr (PyDict unknown_code_response)
   \<and> fmlookup unknown_code_response ''error''
     = Some (PyDict (fmupd ''data'' PyNone (fmupd ''message'' (PyStr ''boom'')
          (fmupd ''code'' (PyInt (- 1)) fmempty))))
   \<and> \<not> known_code (PyInt (- 1))
   \<and> (\<exists>e. unmarshall_response (book_serializer [(unknown_code_text, PyDict unknown_code_response)])
            unknown_code_text = Inl e \<and> cls e = TypeError)"
proof -
  let ?ser = "book_serializer [(unknown_code_text, PyDict unknown_code_response)]"
  let ?err = "fmupd ''data'' PyNone (fmupd ''message'' (PyStr ''boom'')
          (fmupd ''code'' (PyInt (- 1)) fmempty))"
  have h1: "decode ?ser unknown_code_text = Inr (PyDict unknown_code_response)"
    by (simp add: book_serializer_def unknown_code_response_def fmmap_fmupd)
  have h2: "fmlookup unknown_code_response ''jsonrpc'' = Some (PyStr ''2.0'')"
    by (simp add: unknown_code_response_def)
  have h3: "''id'' |\<in>| fmdom unknown_code_response"
    by (simp add: unknown_code_response_def)
  have h4: "fmlookup unknown_code_response ''error'' = Some (PyDict ?err)"
    by (simp add: unknown_code_response_def)
  have h5: "fmlookup ?err ''code'' = Some (PyInt (- 1))"
    by simp
  have h6: "\<not> known_code (PyInt (- 1))"
    by (simp add: known_code_def dom_EXCEPTIONS)
  from unknown_code_surfaces_failure [OF h1 h2 h3 h4 h5 h6] h1 h4 h6
  show ?thesis by blast
qed



section \<open>The round trip of a request\<close>




lemma str_keys_not_ascii:
  assumes "k \<in> fmdom' kws" and "\<not> is_ascii k"
  shows "\<exists>e. str_keys kws = Inl e \<and> cls e = UnicodeEncodeError"
proof -
  from assms have "filter (\<lambda>k. \<not> is_ascii k) (sorted_list_of_fset (fmdom kws)) \<noteq> []"
    by (auto simp: filter_empty_conv fmdom'_alt_def)
  then show ?thesis
    by (auto simp: str_keys_def unicode_encode_error_def Let_def split: list.splits)
qed




section \<open>The round trip of an error\<close>

lemma concat_map_single: "\<forall>x \<in> set xs. f x = [x] \<Longrightarrow> concat (map f xs) = xs"
  by (induction xs) simp_all

lemma repr_verbatim:
  assumes "verbatim s"
  shows "py_repr_str s = [repr_quote s] @ s @ [repr_quote s]"
proof -
  have "repr_char (repr_quote s) c = [c]" if "c \<in> set s" for c
  proof -
    from assms that have b: "32 \<le> (of_char c :: nat)" "(of_char c :: nat) < 127" "c \<noteq> CHR 0x5C"
      by (auto simp: verbatim_def)
    from assms that have q: "c \<noteq> repr_quote s"
      by (auto simp: verbatim_def repr_quote_def)
    from b have "c \<noteq> CHR 0x09" "c \<noteq> CHR 0x0A" "c \<noteq> CHR 0x0D" by auto
    with b q show ?thesis by (simp add: repr_char_def)
  qed
  then have "concat (map (repr_char (repr_quote s)) s) = s"
    by (simp add: concat_map_single)
  then show ?thesis by (simp add: py_repr_str_def Let_def)
qed

lemma intact_ERRORS: "intact ERRORS"
  by (simp add: intact_def)

lemma intact_step:
  assumes "intact tbl"
  shows "intact (snd (marshall_error tbl e))"
  unfolding intact_def
proof (intro allI impI)
  fix c d0
  assume "ERRORS c = Some d0"
  with assms have "\<exists>d. tbl c = Some d \<and> fmlookup d ''code'' = fmlookup d0 ''code''
      \<and> fmlookup d ''message'' = fmlookup d0 ''message''"
    unfolding intact_def by blast
  then obtain d where d: "tbl c = Some d" "fmlookup d ''code'' = fmlookup d0 ''code''"
    "fmlookup d ''message'' = fmlookup d0 ''message''" by blast
  show "\<exists>d. snd (marshall_error tbl e) c = Some d \<and> fmlookup d ''code'' = fmlookup d0 ''code''
      \<and> fmlookup d ''message'' = fmlookup d0 ''message''"
  proof (cases "cls e = c")
    case True
    with d show ?thesis by (simp add: marshall_error_def)
  next
    case False
    with d show ?thesis by (simp add: marshall_error_def split: option.splits)
  qed
qed

lemma intact_foldl:
  "intact tbl \<Longrightarrow> intact (foldl (\<lambda>tbl e. snd (marshall_error tbl e)) tbl es)"
  by (induction es arbitrary: tbl) (simp_all add: intact_step)

lemma intact_table_after: "intact (table_after es)"
  by (simp add: table_after_def intact_foldl intact_ERRORS)

lemma ERRORS_entry:
  assumes "c \<in> dom ERRORS"
  shows "\<exists>i m. ERRORS c = Some (error_object i m) \<and> EXCEPTIONS i = Some c"
proof -
  from assms consider "c = ParseError" | "c = InvalidRequestError" | "c = MethodNotFoundError"
    | "c = InvalidParamsError" | "c = InternalError"
    by (auto simp: dom_ERRORS)
  then show ?thesis
  proof cases
    case 1
    have "ERRORS c = Some (error_object (- 32700) ''Parse Error'') \<and> EXCEPTIONS (- 32700) = Some c"
      by (simp add: 1 ERRORS_def EXCEPTIONS_def)
    then show ?thesis by blast
  next
    case 2
    have "ERRORS c = Some (error_object (- 32600) ''Invalid Request'') \<and> EXCEPTIONS (- 32600) = Some c"
      by (simp add: 2 ERRORS_def EXCEPTIONS_def)
    then show ?thesis by blast
  next
    case 3
    have "ERRORS c = Some (error_object (- 32601) ''Method not found'') \<and> EXCEPTIONS (- 32601) = Some c"
      by (simp add: 3 ERRORS_def EXCEPTIONS_def)
    then show ?thesis by blast
  next
    case 4
    have "ERRORS c = Some (error_object (- 32602) ''Invalid params'') \<and> EXCEPTIONS (- 32602) = Some c"
      by (simp add: 4 ERRORS_def EXCEPTIONS_def)
    then show ?thesis by blast
  next
    case 5
    have "ERRORS c = Some (error_object (- 32603) ''Internal error'') \<and> EXCEPTIONS (- 32603) = Some c"
      by (simp add: 5 ERRORS_def EXCEPTIONS_def)
    then show ?thesis by blast
  qed
qed

lemma error_roundtrip_message:
  assumes "c \<in> dom ERRORS" and "intact tbl" and "as \<noteq> []"
  shows "error_roundtrip tbl (Exc c as) =
     Inr (Some (Exc c [PyStr (error_title c @ '': '' @ py_repr (PyTuple as))]))"
proof -
  from ERRORS_entry [OF assms(1)] obtain i m where
    e: "ERRORS c = Some (error_object i m)" and x: "EXCEPTIONS i = Some c" by blast
  from assms(2) e have "\<exists>d. tbl c = Some d
      \<and> fmlookup d ''code'' = fmlookup (error_object i m) ''code''
      \<and> fmlookup d ''message'' = fmlookup (error_object i m) ''message''"
    unfolding intact_def by blast
  then obtain d where d: "tbl c = Some d"
    "fmlookup d ''code'' = Some (PyInt i)" "fmlookup d ''message'' = Some (PyStr m)"
    by (auto simp: error_object_def)
  have t: "error_title c = m"
    by (simp add: error_title_def e error_object_def py_str_def)
  have h: "exception_of_code (PyInt i) = Inr c"
    by (simp add: exception_of_code_def x)
  show ?thesis
    using assms(3)
    by (simp add: error_roundtrip_def marshall_error_def d deref_def unmarshall_error_def
        getitem_def args_or_None_def h format_message_def py_str_def t)
qed

lemma sublist_single: "sublist [x] ys \<longleftrightarrow> x \<in> set ys"
  by (auto simp: sublist_def in_set_conv_decomp)

text \<open>
  C5, as amended. For every class of the code table and every detail message, in every
  state that calls of \<open>marshall_error\<close> can leave the table in, unmarshalling the
  object that \<open>marshall_error\<close> returned gives an error of the same class. Its message
  is the message of the table, a colon and the argument tuple as \<open>repr\<close> writes it,
  which holds the \<open>repr\<close> of the detail; the detail itself is part of the message when
  \<open>repr\<close> writes it without an escape.
\<close>

theorem error_roundtrip_kind_and_message:
  assumes "c \<in> dom ERRORS"
  shows "\<exists>msg. error_roundtrip (table_after es) (Exc c [PyStr detail]) = Inr (Some (Exc c [PyStr msg]))
     \<and> msg = error_title c @ '': ('' @ py_repr_str detail @ '',)''
     \<and> (verbatim detail \<longrightarrow> sublist detail msg)"
proof -
  have m: "error_roundtrip (table_after es) (Exc c [PyStr detail]) =
      Inr (Some (Exc c [PyStr (error_title c @ '': ('' @ py_repr_str detail @ '',)'')]))"
    using error_roundtrip_message [OF assms intact_table_after, of "[PyStr detail]"] by simp
  have "sublist detail (error_title c @ '': ('' @ py_repr_str detail @ '',)'')" if "verbatim detail"
  proof -
    have "error_title c @ '': ('' @ py_repr_str detail @ '',)'' =
        (error_title c @ '': ('' @ [repr_quote detail]) @ detail @ ([repr_quote detail] @ '',)'')"
      by (simp add: repr_verbatim [OF that])
    then show ?thesis unfolding sublist_def by blast
  qed
  with m show ?thesis by blast
qed

theorem error_roundtrip_kind_and_message_witness:
  "MethodNotFoundError \<in> dom ERRORS \<and> verbatim ''sub''
   \<and> error_roundtrip (table_after [Exc MethodNotFoundError [PyStr ''old'']])
        (Exc MethodNotFoundError [PyStr ''sub''])
       = Inr (Some (Exc MethodNotFoundError [PyStr ''Method not found: ('sub',)'']))
   \<and> sublist ''sub'' ''Method not found: ('sub',)''"
proof -
  have h1: "MethodNotFoundError \<in> dom ERRORS" by (simp add: dom_ERRORS)
  have h2: "verbatim ''sub''" by (simp add: verbatim_def)
  have t: "error_title MethodNotFoundError @ '': ('' @ py_repr_str ''sub'' @ '',)''
      = ''Method not found: ('sub',)''"
    by (simp add: error_title_def ERRORS_def error_object_def py_str_def py_repr_str_def
        repr_quote_def repr_char_def Let_def)
  from error_roundtrip_kind_and_message [OF h1, of "[Exc MethodNotFoundError [PyStr ''old'']]" "''sub''"]
  obtain msg where
    a: "error_roundtrip (table_after [Exc MethodNotFoundError [PyStr ''old'']])
          (Exc MethodNotFoundError [PyStr ''sub'']) = Inr (Some (Exc MethodNotFoundError [PyStr msg]))"
    and b: "msg = error_title MethodNotFoundError @ '': ('' @ py_repr_str ''sub'' @ '',)''"
    and c: "verbatim ''sub'' \<longrightarrow> sublist ''sub'' msg"
    by blast
  from b t have "msg = ''Method not found: ('sub',)''" by (rule trans)
  with a c h1 h2 show ?thesis by blast
qed

text \<open>
  C5 as stated has the detail in the message for every detail. A detail that is one
  newline comes back as the message \<open>Parse Error: ('\n',)\<close>, where the newline is
  written as a backslash and the letter n: the message holds no newline.
\<close>

theorem newline_detail_counterexample:
  "error_roundtrip ERRORS (Exc ParseError [PyStr [CHR 0x0A]])
     = Inr (Some (Exc ParseError [PyStr (''Parse Error: ('' @ [CHR 0x27, CHR 0x5C, CHR ''n'', CHR 0x27] @ '',)'')]))
   \<and> \<not> sublist [CHR 0x0A] (''Parse Error: ('' @ [CHR 0x27, CHR 0x5C, CHR ''n'', CHR 0x27] @ '',)'')"
  by (simp add: error_roundtrip_def marshall_error_def ERRORS_ParseError deref_def
      unmarshall_error_def getitem_def args_or_None_def error_object_def exception_of_code_def
      EXCEPTIONS_def format_message_def py_str_def py_repr_str_def repr_quote_def repr_char_def
      Let_def sublist_single)

end
